theory Spec2Isabelle
  imports Main "HOL-Library.Word" "HOL-Library.Sublist"
begin

section \<open>JavaScript strings and errors\<close>

text \<open>
  A JavaScript string is a sequence of UTF-16 code units; \<open>length\<close>, \<open>substring\<close>,
  \<open>padStart\<close> and the regular expression of \<open>formatDuration\<close> all count code units.
  A literal of the source is written \<open>lit ''...''\<close>; the few characters of the source
  outside ASCII are given by their code units.
\<close>

type_synonym unit16 = "16 word"
type_synonym jsstr = "unit16 list"

definition lit :: "string \<Rightarrow> jsstr" where
  "lit s = map of_char s"

text \<open>The class \<open>\d\<close> of a regular expression without the unicode flag: \<open>0\<close> to \<open>9\<close>.\<close>

definition isDigit :: "unit16 \<Rightarrow> bool" where
  "isDigit c = (0x30 \<le> c \<and> c \<le> 0x39)"

text \<open>
  The code units that \<open>String.prototype.trim\<close> removes: the WhiteSpace and
  LineTerminator productions of ECMAScript (tab, LF, VT, FF, CR, space, no-break space,
  U+1680, U+2000 to U+200A, U+2028, U+2029, U+202F, U+205F, U+3000, U+FEFF).
\<close>

definition isWhiteSpace :: "unit16 \<Rightarrow> bool" where
  "isWhiteSpace c =
     ((0x09 \<le> c \<and> c \<le> 0x0D) \<or> c = 0x20 \<or> c = 0xA0 \<or> c = 0x1680 \<or>
      (0x2000 \<le> c \<and> c \<le> 0x200A) \<or> c = 0x2028 \<or> c = 0x2029 \<or> c = 0x202F \<or>
      c = 0x205F \<or> c = 0x3000 \<or> c = 0xFEFF)"

text \<open>\<open>s.trim()\<close> removes white space at both ends of \<open>s\<close>.\<close>

definition trim :: "jsstr \<Rightarrow> jsstr" where
  "trim s = rev (dropWhile isWhiteSpace (rev (dropWhile isWhiteSpace s)))"

text \<open>
  \<open>s.substring(0, n)\<close> for an integral \<open>n\<close>: a negative \<open>n\<close> counts as 0 and an
  \<open>n\<close> beyond the length as the length.
\<close>

definition substring0 :: "jsstr \<Rightarrow> int \<Rightarrow> jsstr" where
  "substring0 s n = take (nat n) s"

text \<open>\<open>s.padStart(n, c)\<close> for a one-unit filler \<open>c\<close>.\<close>

definition padStart :: "nat \<Rightarrow> unit16 \<Rightarrow> jsstr \<Rightarrow> jsstr" where
  "padStart n c s = replicate (n - length s) c @ s"

text \<open>
  \<open>s.replace(c, '')\<close> for a one-unit string \<open>c\<close> removes the first occurrence of
  \<open>c\<close>: it is \<open>remove1 c s\<close>.  \<open>x || ''\<close> on a string or \<open>undefined\<close> is
  \<open>orEmpty x\<close>.
\<close>

definition orEmpty :: "jsstr option \<Rightarrow> jsstr" where
  "orEmpty x = (case x of None \<Rightarrow> [] | Some s \<Rightarrow> s)"

text \<open>
  The errors the script can throw: \<open>new Error(message)\<close>, the TypeError of a property
  read or write on \<open>null\<close> or \<open>undefined\<close>, and the ReferenceError of an undeclared
  global.  The message of the last two is the engine's.
\<close>

datatype js_error = Error jsstr | TypeError | ReferenceError

section \<open>formatDuration\<close>

text \<open>
  One optional group \<open>(\d+X)?\<close> tried at the head of \<open>s\<close>: the text it captures
  (\<open>None\<close> is \<open>undefined\<close>) and what is left of \<open>s\<close>.  \<open>\d+\<close> is greedy, so it
  takes the longest run of digits; a shorter run is followed by a digit, never by \<open>X\<close>,
  so backtracking into the run cannot make the group match.
\<close>

definition component :: "unit16 \<Rightarrow> jsstr \<Rightarrow> jsstr option \<times> jsstr" where
  "component x s =
     (let ds = takeWhile isDigit s in
      case dropWhile isDigit s of
        [] \<Rightarrow> (None, s)
      | c # r \<Rightarrow> if ds \<noteq> [] \<and> c = x then (Some (ds @ [x]), r) else (None, s))"

text \<open>The three groups of \<open>(\d+H)?(\d+M)?(\d+S)?\<close>, matched in turn after \<open>PT\<close>.\<close>

definition groups :: "jsstr \<Rightarrow> jsstr option \<times> jsstr option \<times> jsstr option" where
  "groups s =
     (let (g1, s1) = component 0x48 s;
          (g2, s2) = component 0x4D s1;
          (g3, s3) = component 0x53 s2
      in (g1, g2, g3))"

text \<open>
  \<open>duration.match(/PT(\d+H)?(\d+M)?(\d+S)?/)\<close>: the expression is not anchored, so
  the match starts at the leftmost \<open>PT\<close> (every group is optional, so the expression
  matches wherever \<open>PT\<close> stands); without one the result is \<open>null\<close>.  The result
  holds \<open>match[1]\<close>, \<open>match[2]\<close> and \<open>match[3]\<close>.
\<close>

fun duration_match :: "jsstr \<Rightarrow> (jsstr option \<times> jsstr option \<times> jsstr option) option" where
  "duration_match (a # b # s) =
     (if a = 0x50 \<and> b = 0x54 then Some (groups s) else duration_match (b # s))"
| "duration_match _ = None"

definition formatDuration :: "jsstr \<Rightarrow> js_error + jsstr" where
  "formatDuration duration =
     (case duration_match duration of
        None \<Rightarrow> Inl TypeError
      | Some (m1, m2, m3) \<Rightarrow>
          (let hours = remove1 0x48 (orEmpty m1);
               minutes = remove1 0x4D (orEmpty m2);
               seconds = remove1 0x53 (orEmpty m3)
           in if hours \<noteq> []
              then Inr (hours @ lit '':'' @ padStart 2 0x30 minutes @ lit '':'' @
                        padStart 2 0x30 seconds)
              else Inr ((if minutes \<noteq> [] then minutes else lit ''0'') @ lit '':'' @
                        padStart 2 0x30 seconds)))"

section \<open>truncateText\<close>

text \<open>\<open>maxLength\<close> is an integral number (the script passes 120).\<close>

definition truncateText :: "jsstr \<Rightarrow> int \<Rightarrow> jsstr" where
  "truncateText text maxLength =
     (if int (length text) \<le> maxLength then text
      else trim (substring0 text maxLength) @ lit ''...'')"

section \<open>The data of the provider\<close>

text \<open>
  The resources the script reads, with the fields it reads.  A field the script reads
  through \<open>?.\<close> or defaults with \<open>||\<close> may be missing (\<open>None\<close> is \<open>undefined\<close>);
  the others are present in every resource.  One item of a \<open>playlistItems\<close> page:
\<close>

record thumbnail =
  url :: jsstr

record thumbnails =
  high :: "thumbnail option"
  medium :: "thumbnail option"

record snippet =
  title :: jsstr
  description :: jsstr
  thumbnails :: thumbnails
  publishedAt :: jsstr

record item_contentDetails =
  videoId :: jsstr

record playlist_item =
  contentDetails :: item_contentDetails
  snippet :: snippet

text \<open>The body of a \<open>playlistItems\<close> response: a page and, perhaps, the next cursor.\<close>

record playlist_data =
  items :: "playlist_item list"
  nextPageToken :: "jsstr option"

text \<open>One resource of a \<open>videos\<close> response, and the body of the response.\<close>

record video_contentDetails =
  duration :: "jsstr option"

record video_statistics =
  viewCount :: "jsstr option"

record video_resource =
  resource_id :: jsstr
  resource_contentDetails :: "video_contentDetails option"
  resource_statistics :: "video_statistics option"

record videos_data =
  resources :: "video_resource list"

text \<open>
  The object \<open>fetchPlaylistVideos\<close> builds for each playlist item (\<open>video.id\<close>,
  \<open>video.title\<close>, ...).  \<open>video_thumbnail\<close> is \<open>undefined\<close> when the item has no
  usable thumbnail.
\<close>

record video =
  video_id :: jsstr
  video_title :: jsstr
  video_description :: jsstr
  video_thumbnail :: "jsstr option"
  video_publishedAt :: jsstr
  video_duration :: jsstr
  video_viewCount :: jsstr

section \<open>The network\<close>

text \<open>
  What \<open>await fetch(url)\<close> yields: \<open>response.ok\<close>, \<open>response.status\<close>,
  \<open>response.statusText\<close> and the value of \<open>await response.json()\<close>, which the script
  reads only when \<open>ok\<close> holds.
\<close>

record 'a response =
  ok :: bool
  status :: nat
  statusText :: jsstr
  json :: 'a

text \<open>
  The provider has two endpoints; each answers a request for a URL with a body of its
  own shape.  The answer may depend on the requests made before (the URLs fetched so far,
  oldest first), so a provider whose pages change between requests is covered.  Requests
  are sequential: each is awaited before the next is made.
\<close>

record network =
  playlistItems :: "jsstr list \<Rightarrow> jsstr \<Rightarrow> playlist_data response"
  videos :: "jsstr list \<Rightarrow> jsstr \<Rightarrow> videos_data response"

text \<open>
  The globals the script reads: \<open>CONFIG\<close> of \<open>js/config.js\<close>, not declared at all
  when that file is not loaded, and \<open>window.YOUTUBE_PLAYLIST_ID\<close>, set by the page.
\<close>

record config =
  YOUTUBE_API_KEY :: "jsstr option"

record globals =
  CONFIG :: "config option"
  YOUTUBE_PLAYLIST_ID :: "jsstr option"

definition YOUTUBE_API_BASE :: jsstr where
  "YOUTUBE_API_BASE = lit ''https://www.googleapis.com/youtube/v3''"

text \<open>\<open>${x}\<close> in a template literal, for a string or \<open>undefined\<close>.\<close>

definition template_text :: "jsstr option \<Rightarrow> jsstr" where
  "template_text x = (case x of None \<Rightarrow> lit ''undefined'' | Some s \<Rightarrow> s)"

text \<open>
  \<open>${n}\<close> for a non-negative integer below \<open>10^21\<close> (an HTTP status, the length of
  an array): its decimal digits.
\<close>

fun decimal :: "nat \<Rightarrow> jsstr" where
  "decimal n =
     (if n < 10 then [0x30 + of_nat n]
      else decimal (n div 10) @ [0x30 + of_nat (n mod 10)])"

declare decimal.simps [simp del]

text \<open>\<open>xs.join(sep)\<close> on an array of strings.\<close>

fun join :: "jsstr \<Rightarrow> jsstr list \<Rightarrow> jsstr" where
  "join sep [] = []"
| "join sep [x] = x"
| "join sep (x # y # ys) = x @ sep @ join sep (y # ys)"

section \<open>fetchPlaylistVideos\<close>

definition playlistUrl :: "jsstr \<Rightarrow> jsstr \<Rightarrow> jsstr \<Rightarrow> jsstr" where
  "playlistUrl playlistId key pageToken =
     YOUTUBE_API_BASE @
     lit ''/playlistItems?part=snippet,contentDetails&maxResults=50&playlistId='' @
     playlistId @ lit ''&key='' @ key @
     (if pageToken \<noteq> [] then lit ''&pageToken='' @ pageToken else [])"

definition videosUrl :: "jsstr \<Rightarrow> jsstr \<Rightarrow> jsstr" where
  "videosUrl videoIds key =
     YOUTUBE_API_BASE @ lit ''/videos?part=contentDetails,statistics&id='' @ videoIds @
     lit ''&key='' @ key"

definition playlist_error :: "playlist_data response \<Rightarrow> js_error" where
  "playlist_error response =
     Error (lit ''Error al obtener la playlist: '' @ decimal (status response) @ lit '' '' @
            statusText response)"

definition videos_error :: "videos_data response \<Rightarrow> js_error" where
  "videos_error videosResponse =
     Error (lit ''Error al obtener detalles de v'' @ [0xED] @ lit ''deos: '' @
            decimal (status videosResponse))"

text \<open>
  The \<open>do ... while (nextPageToken)\<close> loop, entered with the items gathered so far, the
  cursor and the URLs fetched so far.  It ends with the error thrown or with all items,
  and with the URLs fetched; it need not end, since nothing bounds the number of pages:
  \<open>None\<close> is the run that goes on forever.
\<close>

partial_function (option) fetch_pages ::
  "network \<Rightarrow> jsstr \<Rightarrow> jsstr \<Rightarrow> playlist_item list \<Rightarrow> jsstr \<Rightarrow> jsstr list \<Rightarrow>
   ((js_error + playlist_item list) \<times> jsstr list) option" where
  "fetch_pages net playlistId key allVideos pageToken log =
     (let requested = playlistUrl playlistId key pageToken;
          response = playlistItems net log requested;
          log' = log @ [requested]
      in if \<not> ok response then Some (Inl (playlist_error response), log')
         else
           let data = json response;
               allVideos' = allVideos @ items data;
               pageToken' = orEmpty (nextPageToken data)
           in if pageToken' \<noteq> [] then fetch_pages net playlistId key allVideos' pageToken' log'
              else Some (Inr allVideos', log'))"

text \<open>
  The object built for one item: \<open>find\<close> yields the first resource with the item's
  video id; \<open>x || d\<close> is \<open>d\<close> when \<open>x\<close> is \<open>undefined\<close> or the empty string.
\<close>

definition thumbnail_url :: "thumbnails \<Rightarrow> jsstr option" where
  "thumbnail_url t =
     (case map_option url (high t) of
        Some u \<Rightarrow> if u \<noteq> [] then Some u else map_option url (medium t)
      | None \<Rightarrow> map_option url (medium t))"

definition or_default :: "jsstr option \<Rightarrow> jsstr \<Rightarrow> jsstr" where
  "or_default x d = (case x of None \<Rightarrow> d | Some s \<Rightarrow> if s \<noteq> [] then s else d)"

definition with_details :: "videos_data \<Rightarrow> playlist_item \<Rightarrow> video" where
  "with_details videosData item =
     (let videoDetails =
            find (\<lambda>v. resource_id v = videoId (contentDetails item)) (resources videosData)
      in \<lparr> video_id = videoId (contentDetails item),
           video_title = title (snippet item),
           video_description = description (snippet item),
           video_thumbnail = thumbnail_url (thumbnails (snippet item)),
           video_publishedAt = publishedAt (snippet item),
           video_duration =
             or_default (Option.bind (Option.bind videoDetails resource_contentDetails) duration)
               (lit ''PT0S''),
           video_viewCount =
             or_default (Option.bind (Option.bind videoDetails resource_statistics) viewCount)
               (lit ''0'') \<rparr>)"

definition videosWithDetails :: "videos_data \<Rightarrow> playlist_item list \<Rightarrow> video list" where
  "videosWithDetails videosData allVideos = map (with_details videosData) allVideos"

text \<open>
  The body of the \<open>try\<close> block.  The first thing it evaluates that can throw is
  \<open>CONFIG.YOUTUBE_API_KEY\<close> in the first URL, a ReferenceError when \<open>CONFIG\<close> is not
  declared.
\<close>

definition fetch_body ::
  "globals \<Rightarrow> network \<Rightarrow> jsstr list \<Rightarrow> ((js_error + video list) \<times> jsstr list) option" where
  "fetch_body g net log =
     (case CONFIG g of
        None \<Rightarrow> Some (Inl ReferenceError, log)
      | Some c \<Rightarrow>
          let playlistId = template_text (YOUTUBE_PLAYLIST_ID g);
              key = template_text (YOUTUBE_API_KEY c)
          in case fetch_pages net playlistId key [] [] log of
               None \<Rightarrow> None
             | Some (Inl error, log1) \<Rightarrow> Some (Inl error, log1)
             | Some (Inr allVideos, log1) \<Rightarrow>
                 let videoIds = join (lit '','') (map (\<lambda>item. videoId (contentDetails item)) allVideos);
                     requested = videosUrl videoIds key;
                     videosResponse = videos net log1 requested;
                     log2 = log1 @ [requested]
                 in if \<not> ok videosResponse then Some (Inl (videos_error videosResponse), log2)
                    else Some (Inr (videosWithDetails (json videosResponse) allVideos), log2))"

section \<open>The page\<close>

text \<open>
  What the script reads and changes besides its own variables: the \<open>innerHTML\<close> of the
  element \<open>.videos-grid\<close> and the \<open>textContent\<close> of the element \<open>.videos-note\<close>
  (\<open>None\<close> when \<open>document.querySelector\<close> finds no such element and yields
  \<open>null\<close>), the URLs fetched so far, oldest first, and the errors written with
  \<open>console.error\<close>.
\<close>

record page =
  videos_grid :: "jsstr option"
  videos_note :: "jsstr option"
  requests :: "jsstr list"
  console :: "js_error list"

text \<open>
  What the host decides: the text of \<open>new Date(s).toLocaleDateString('es-ES', options)\<close>
  and of \<open>parseInt(s).toLocaleString('es-ES')\<close> for a string \<open>s\<close> (neither throws),
  and the \<open>message\<close> of the errors the engine itself throws.
\<close>

record host =
  toLocaleDateString :: "jsstr \<Rightarrow> jsstr"
  viewsToLocaleString :: "jsstr \<Rightarrow> jsstr"
  engine_message :: "js_error \<Rightarrow> jsstr"

definition message :: "host \<Rightarrow> js_error \<Rightarrow> jsstr" where
  "message h error = (case error of Error m \<Rightarrow> m | _ \<Rightarrow> engine_message h error)"

definition formatPublishedDate :: "host \<Rightarrow> jsstr \<Rightarrow> jsstr" where
  "formatPublishedDate h dateString = toLocaleDateString h dateString"

section \<open>createVideoCard\<close>

definition createVideoCard :: "host \<Rightarrow> video \<Rightarrow> js_error + jsstr" where
  \<open>createVideoCard h video =
     (case formatDuration (video_duration video) of
        Inl error \<Rightarrow> Inl error
      | Inr formattedDuration \<Rightarrow>
          let formattedDate = formatPublishedDate h (video_publishedAt video);
              truncatedDescription = truncateText (video_description video) 120;
              formattedViews = viewsToLocaleString h (video_viewCount video)
          in Inr (
     lit ''\<newline>'' @
     lit ''        <article class="video-card">\<newline>'' @
     lit ''            <a href="https://www.youtube.com/watch?v='' @
     video_id video @
     lit ''" target="_blank" rel="noopener noreferrer">\<newline>'' @
     lit ''                <div class="video-thumbnail">\<newline>'' @
     lit ''                    <img src="'' @
     template_text (video_thumbnail video) @
     lit ''" alt="'' @
     video_title video @
     lit ''" loading="lazy">\<newline>'' @
     lit ''                    <div class="video-duration">'' @
     formattedDuration @
     lit ''</div>\<newline>'' @
     lit ''                    <div class="play-overlay">\<newline>'' @
     lit ''                        <i class="fa-solid fa-play"></i>\<newline>'' @
     lit ''                    </div>\<newline>'' @
     lit ''                </div>\<newline>'' @
     lit ''                <div class="video-info">\<newline>'' @
     lit ''                    <h3 class="video-title">'' @
     video_title video @
     lit ''</h3>\<newline>'' @
     lit ''                    <p class="video-description">'' @
     truncatedDescription @
     lit ''</p>\<newline>'' @
     lit ''                    <div class="video-meta">\<newline>'' @
     lit ''                        <span><i class="fa-solid fa-eye"></i> '' @
     formattedViews @
     lit '' visualizaciones</span>\<newline>'' @
     lit ''                        <span><i class="fa-solid fa-calendar"></i> '' @
     formattedDate @
     lit ''</span>\<newline>'' @
     lit ''                    </div>\<newline>'' @
     lit ''                </div>\<newline>'' @
     lit ''            </a>\<newline>'' @
     lit ''        </article>\<newline>'' @
     lit ''    ''))\<close>

section \<open>showLoading, showError, renderVideos\<close>

text \<open>
  \<open>videosGrid.innerHTML = html\<close>: a TypeError when \<open>videosGrid\<close> is \<open>null\<close>, and
  then nothing is changed.
\<close>

definition set_innerHTML :: "jsstr \<Rightarrow> page \<Rightarrow> js_error + page" where
  "set_innerHTML html p =
     (case videos_grid p of
        None \<Rightarrow> Inl TypeError
      | Some old \<Rightarrow> Inr (p\<lparr>videos_grid := Some html\<rparr>))"

definition loading_html :: jsstr where
  \<open>loading_html =
     lit ''\<newline>'' @
     lit ''        <div class="loading-container">\<newline>'' @
     lit ''            <div class="loading-spinner"></div>\<newline>'' @
     lit ''            <p>Cargando v'' @ [0xED] @ lit ''deos de la lista de reproducci'' @ [0xF3] @
     lit ''n...</p>\<newline>'' @
     lit ''        </div>\<newline>'' @
     lit ''    ''\<close>

definition showLoading :: "page \<Rightarrow> js_error + page" where
  "showLoading p = set_innerHTML loading_html p"

text \<open>The link to the playlist, present when \<open>playlistId\<close> is a non-empty string.\<close>

definition youtube_link :: "jsstr option \<Rightarrow> jsstr" where
  \<open>youtube_link playlistId =
     (if orEmpty playlistId \<noteq> [] then
        lit ''\<newline>'' @
        lit ''            <a href="https://www.youtube.com/playlist?list='' @
        orEmpty playlistId @
        lit ''" target="_blank" rel="noopener noreferrer" class="youtube-link-btn">\<newline>'' @
        lit ''                <i class="fa-brands fa-youtube"></i> Ver en YouTube\<newline>'' @
        lit ''            </a>\<newline>'' @
        lit ''            ''
      else [])\<close>

definition error_html :: "jsstr option \<Rightarrow> jsstr \<Rightarrow> jsstr" where
  \<open>error_html playlistId msg =
     lit ''\<newline>'' @
     lit ''        <div class="error-container">\<newline>'' @
     lit ''            <i class="fa-solid fa-exclamation-triangle fa-3x"></i>\<newline>'' @
     lit ''            <p class="error-message">'' @
     msg @
     lit ''</p>\<newline>'' @
     lit ''            <p class="error-hint">Por favor, verifica la configuraci'' @ [0xF3] @
     lit ''n de la API key o visita la lista directamente en YouTube.</p>\<newline>'' @
     lit ''            '' @
     youtube_link playlistId @
     lit ''\<newline>'' @
     lit ''        </div>\<newline>'' @
     lit ''    ''\<close>

definition showError :: "globals \<Rightarrow> jsstr \<Rightarrow> page \<Rightarrow> js_error + page" where
  "showError g msg p = set_innerHTML (error_html (YOUTUBE_PLAYLIST_ID g) msg) p"

definition no_videos_html :: jsstr where
  \<open>no_videos_html =
     lit ''\<newline>'' @
     lit ''            <div class="no-videos-container">\<newline>'' @
     lit ''                <i class="fa-brands fa-youtube fa-3x"></i>\<newline>'' @
     lit ''                <p>No se encontraron v'' @ [0xED] @ lit ''deos en esta lista de reproducci'' @
     [0xF3] @ lit ''n.</p>\<newline>'' @
     lit ''            </div>\<newline>'' @
     lit ''        ''\<close>

text \<open>
  \<open>videos.map(video => createVideoCard(video))\<close>: the cards in order; the first card
  that throws ends the whole call.
\<close>

fun video_cards :: "host \<Rightarrow> video list \<Rightarrow> js_error + jsstr list" where
  "video_cards h [] = Inr []"
| "video_cards h (video # rest) =
     (case createVideoCard h video of
        Inl error \<Rightarrow> Inl error
      | Inr html \<Rightarrow>
          (case video_cards h rest of
             Inl error \<Rightarrow> Inl error
           | Inr htmls \<Rightarrow> Inr (html # htmls)))"

definition note_text :: "nat \<Rightarrow> jsstr" where
  "note_text n =
     decimal n @ lit '' v'' @ [0xED] @ lit ''deo'' @ (if n \<noteq> 1 then lit ''s'' else []) @
     lit '' en esta lista de reproducci'' @ [0xF3] @ lit ''n.''"

definition renderVideos :: "host \<Rightarrow> video list \<Rightarrow> page \<Rightarrow> js_error + page" where
  "renderVideos h vs p =
     (if length vs = 0 then set_innerHTML no_videos_html p
      else
        case video_cards h vs of
          Inl error \<Rightarrow> Inl error
        | Inr htmls \<Rightarrow>
            (case set_innerHTML (join [] htmls) p of
               Inl error \<Rightarrow> Inl error
             | Inr p' \<Rightarrow>
                 (case videos_note p' of
                    None \<Rightarrow> Inr p'
                  | Some old \<Rightarrow> Inr (p'\<lparr>videos_note := Some (note_text (length vs))\<rparr>))))"

section \<open>fetchPlaylistVideos and initializePlaylist\<close>

text \<open>
  The \<open>try\<close> block with its \<open>catch\<close>, which writes the error to the console and throws
  it again.  The result is the error thrown or the videos, and the page afterwards.
\<close>

definition fetchPlaylistVideos ::
  "globals \<Rightarrow> network \<Rightarrow> page \<Rightarrow> ((js_error + video list) \<times> page) option" where
  "fetchPlaylistVideos g net p =
     (case fetch_body g net (requests p) of
        None \<Rightarrow> None
      | Some (Inl error, log) \<Rightarrow>
          Some (Inl error, p\<lparr>requests := log, console := console p @ [error]\<rparr>)
      | Some (Inr vs, log) \<Rightarrow> Some (Inr vs, p\<lparr>requests := log\<rparr>))"

definition config_missing :: jsstr where
  "config_missing =
     [0x26A0, 0xFE0F] @ lit '' Archivo de configuraci'' @ [0xF3] @
     lit ''n no encontrado. Por favor, crea el archivo js/config.js bas'' @ [0xE1] @
     lit ''ndote en config.example.js''"

definition key_missing :: jsstr where
  "key_missing =
     [0x26A0, 0xFE0F] @
     lit '' API Key no configurada. Por favor, configura tu API key de YouTube en '' @
     lit ''el archivo js/config.js''"

definition playlist_id_missing :: jsstr where
  "playlist_id_missing =
     [0x26A0, 0xFE0F] @ lit '' ID de lista de reproducci'' @ [0xF3] @
     lit ''n no definido. Por favor define window.YOUTUBE_PLAYLIST_ID en el HTML '' @
     lit ''antes de cargar este script.''"

definition load_failed :: jsstr where
  "load_failed = lit ''Error al cargar los v'' @ [0xED] @ lit ''deos de YouTube. ''"

text \<open>
  The result of a call: the error the call ends with (its promise is rejected), if any,
  and the page afterwards; \<open>None\<close> when the call never ends.
\<close>

definition finish :: "page \<Rightarrow> js_error + page \<Rightarrow> (js_error option \<times> page) option" where
  "finish p r = (case r of Inl error \<Rightarrow> Some (Some error, p) | Inr p' \<Rightarrow> Some (None, p'))"

definition initializePlaylist ::
  "host \<Rightarrow> globals \<Rightarrow> network \<Rightarrow> page \<Rightarrow> (js_error option \<times> page) option" where
  "initializePlaylist h g net p =
     (case CONFIG g of
        None \<Rightarrow> finish p (showError g config_missing p)
      | Some c \<Rightarrow>
          if orEmpty (YOUTUBE_API_KEY c) = [] \<or> YOUTUBE_API_KEY c = Some (lit ''TU_API_KEY_AQUI'')
          then finish p (showError g key_missing p)
          else if orEmpty (YOUTUBE_PLAYLIST_ID g) = []
          then finish p (showError g playlist_id_missing p)
          else
            case showLoading p of
              Inl error \<Rightarrow> Some (Some error, p)
            | Inr p1 \<Rightarrow>
                (case fetchPlaylistVideos g net p1 of
                   None \<Rightarrow> None
                 | Some (Inl error, p2) \<Rightarrow>
                     finish p2 (showError g (load_failed @ message h error) p2)
                 | Some (Inr vs, p2) \<Rightarrow>
                     (case renderVideos h vs p2 of
                        Inl error \<Rightarrow> finish p2 (showError g (load_failed @ message h error) p2)
                      | Inr p3 \<Rightarrow> Some (None, p3))))"

section \<open>Notions used to state the properties\<close>

text \<open>
  A compact duration encoding: \<open>PT\<close>, then an optional hours component (digits and
  \<open>H\<close>), an optional minutes component (digits and \<open>M\<close>) and an optional seconds
  component (digits and \<open>S\<close>).  \<open>encoding h m s\<close> is the encoding with the digits
  \<open>h\<close>, \<open>m\<close> and \<open>s\<close>, where \<open>None\<close> is an absent component.
\<close>

definition digits :: "jsstr \<Rightarrow> bool" where
  "digits d = (d \<noteq> [] \<and> list_all isDigit d)"

definition part_ok :: "jsstr option \<Rightarrow> bool" where
  "part_ok d = (case d of None \<Rightarrow> True | Some n \<Rightarrow> digits n)"

definition unit_part :: "jsstr option \<Rightarrow> unit16 \<Rightarrow> jsstr" where
  "unit_part d x = (case d of None \<Rightarrow> [] | Some n \<Rightarrow> n @ [x])"

definition encoding :: "jsstr option \<Rightarrow> jsstr option \<Rightarrow> jsstr option \<Rightarrow> jsstr" where
  "encoding h m s = lit ''PT'' @ unit_part h 0x48 @ unit_part m 0x4D @ unit_part s 0x53"

text \<open>White space removed at the end of a string only.\<close>

definition trimEnd :: "jsstr \<Rightarrow> jsstr" where
  "trimEnd s = rev (dropWhile isWhiteSpace (rev s))"

text \<open>
  The cursor of a page as the loop reads it (\<open>data.nextPageToken || ''\<close>): a page
  carries no cursor when the field is missing or empty.
\<close>

definition cursor :: "playlist_data \<Rightarrow> jsstr" where
  "cursor data = orEmpty (nextPageToken data)"

text \<open>
  The requests the loop makes for a run of pages, entered with the cursor \<open>pageToken\<close>:
  each request carries the cursor of the page before it.  \<open>last_cursor\<close> is the cursor
  after the run.
\<close>

fun page_urls :: "jsstr \<Rightarrow> jsstr \<Rightarrow> jsstr \<Rightarrow> playlist_data list \<Rightarrow> jsstr list" where
  "page_urls playlistId key pageToken [] = []"
| "page_urls playlistId key pageToken (data # rest) =
     playlistUrl playlistId key pageToken # page_urls playlistId key (cursor data) rest"

fun last_cursor :: "jsstr \<Rightarrow> playlist_data list \<Rightarrow> jsstr" where
  "last_cursor pageToken [] = pageToken"
| "last_cursor pageToken (data # rest) = last_cursor (cursor data) rest"

text \<open>
  \<open>continues net playlistId key pageToken log pages\<close>: asked in turn, starting with the
  cursor \<open>pageToken\<close> after the requests \<open>log\<close>, the provider answers with success and
  with the pages \<open>pages\<close>, each of which carries a cursor.
\<close>

fun continues ::
  "network \<Rightarrow> jsstr \<Rightarrow> jsstr \<Rightarrow> jsstr \<Rightarrow> jsstr list \<Rightarrow> playlist_data list \<Rightarrow> bool" where
  "continues net playlistId key pageToken log [] = True"
| "continues net playlistId key pageToken log (data # rest) =
     (let requested = playlistUrl playlistId key pageToken;
          response = playlistItems net log requested
      in ok response \<and> json response = data \<and> cursor data \<noteq> [] \<and>
         continues net playlistId key (cursor data) (log @ [requested]) rest)"

text \<open>
  \<open>serves net playlistId key pageToken log pages\<close>: the playlist is spread over the
  pages \<open>pages\<close>, at least one: the provider answers with success and with these pages
  in turn, every page but the last carries a cursor and the last carries none.
\<close>

fun serves ::
  "network \<Rightarrow> jsstr \<Rightarrow> jsstr \<Rightarrow> jsstr \<Rightarrow> jsstr list \<Rightarrow> playlist_data list \<Rightarrow> bool" where
  "serves net playlistId key pageToken log [] = False"
| "serves net playlistId key pageToken log (data # rest) =
     (let requested = playlistUrl playlistId key pageToken;
          response = playlistItems net log requested
      in ok response \<and> json response = data \<and>
         (if rest = [] then cursor data = []
          else cursor data \<noteq> [] \<and> serves net playlistId key (cursor data) (log @ [requested]) rest))"

section \<open>Example data\<close>

text \<open>The configuration of the repository's \<open>js/config.js\<close>, with the placeholder key.\<close>

definition repository_config :: config where
  "repository_config = \<lparr> YOUTUBE_API_KEY = Some (lit ''TU_API_KEY_AQUI'') \<rparr>"

text \<open>A playlist of three items on two pages, and detail records for two of them.\<close>

definition ex_item :: "string \<Rightarrow> playlist_item" where
  "ex_item v =
     \<lparr> contentDetails = \<lparr> videoId = lit v \<rparr>,
       snippet = \<lparr> title = lit ''t'', description = lit ''d'',
                   thumbnails = \<lparr> high = None, medium = None \<rparr>,
                   publishedAt = lit ''2024-01-01T00:00:00Z'' \<rparr> \<rparr>"

definition ex_resource :: "string \<Rightarrow> string \<Rightarrow> video_resource" where
  "ex_resource v d =
     \<lparr> resource_id = lit v,
       resource_contentDetails = Some \<lparr> duration = Some (lit d) \<rparr>,
       resource_statistics = Some \<lparr> viewCount = Some (lit ''7'') \<rparr> \<rparr>"

definition ex_page1 :: playlist_data where
  "ex_page1 = \<lparr> items = [ex_item ''a'', ex_item ''b''], nextPageToken = Some (lit ''T2'') \<rparr>"

definition ex_page2 :: playlist_data where
  "ex_page2 = \<lparr> items = [ex_item ''c''], nextPageToken = None \<rparr>"

definition ex_videos :: videos_data where
  "ex_videos = \<lparr> resources = [ex_resource ''a'' ''PT5M'', ex_resource ''c'' ''PT2H15M33S''] \<rparr>"

definition ex_success :: "'a \<Rightarrow> 'a response" where
  "ex_success body = \<lparr> ok = True, status = 200, statusText = lit ''OK'', json = body \<rparr>"

definition ex_failure :: "nat \<Rightarrow> string \<Rightarrow> 'a \<Rightarrow> 'a response" where
  "ex_failure code txt body =
     \<lparr> ok = False, status = code, statusText = lit txt, json = body \<rparr>"

text \<open>
  Three providers: one that serves both pages and the details, one that refuses the
  second page, and one that serves both pages and refuses the details.
\<close>

definition ex_net :: network where
  "ex_net =
     \<lparr> playlistItems =
         (\<lambda>log u. if u = playlistUrl (lit ''PL'') (lit ''K'') [] then ex_success ex_page1
                   else ex_success ex_page2),
       videos = (\<lambda>log u. ex_success ex_videos) \<rparr>"

definition ex_net_page_fails :: network where
  "ex_net_page_fails =
     \<lparr> playlistItems =
         (\<lambda>log u. if log = [] then ex_success ex_page1
                   else ex_failure 403 ''Forbidden'' ex_page2),
       videos = (\<lambda>log u. ex_success ex_videos) \<rparr>"

definition ex_net_videos_fail :: network where
  "ex_net_videos_fail =
     \<lparr> playlistItems = playlistItems ex_net,
       videos = (\<lambda>log u. ex_failure 500 ''Internal Server Error'' ex_videos) \<rparr>"

definition ex_globals :: globals where
  "ex_globals =
     \<lparr> CONFIG = Some \<lparr> YOUTUBE_API_KEY = Some (lit ''K'') \<rparr>,
       YOUTUBE_PLAYLIST_ID = Some (lit ''PL'') \<rparr>"

text \<open>A page with both elements, empty, and nothing fetched or logged yet.\<close>

definition ex_page :: page where
  "ex_page = \<lparr> videos_grid = Some [], videos_note = Some [], requests = [], console = [] \<rparr>"

definition ex_host :: host where
  "ex_host =
     \<lparr> toLocaleDateString = (\<lambda>s. s), viewsToLocaleString = (\<lambda>s. s),
       engine_message = (\<lambda>e. lit ''Cannot read properties of null'') \<rparr>"

definition ex_video :: "string \<Rightarrow> video" where
  "ex_video d =
     \<lparr> video_id = lit ''a'', video_title = lit ''t'', video_description = lit ''d'',
       video_thumbnail = None, video_publishedAt = lit ''2024-01-01T00:00:00Z'',
       video_duration = lit d, video_viewCount = lit ''7'' \<rparr>"

section \<open>Properties of formatDuration\<close>

lemma span_digits:
  assumes "list_all isDigit d" "\<not> isDigit y"
  shows "takeWhile isDigit (d @ y # r) = d" "dropWhile isDigit (d @ y # r) = y # r"
  using assms by (induction d) auto

lemma component_Nil: "component x [] = (None, [])"
  by (simp add: component_def)

lemma component_hit:
  assumes "digits d" "\<not> isDigit x"
  shows "component x (d @ x # r) = (Some (d @ [x]), r)"
  using assms by (simp add: component_def digits_def span_digits)

lemma component_miss:
  assumes "list_all isDigit d" "\<not> isDigit y" "y \<noteq> x"
  shows "component x (d @ y # r) = (None, d @ y # r)"
  using assms by (simp add: component_def span_digits)

lemma letters_not_digits: "\<not> isDigit 0x48" "\<not> isDigit 0x4D" "\<not> isDigit 0x53"
  by (simp_all add: isDigit_def)

lemma remove1_unit:
  assumes "list_all isDigit d" "\<not> isDigit x"
  shows "remove1 x (d @ [x]) = d"
proof -
  from assms have "x \<notin> set d" by (auto simp: list_all_iff)
  then show ?thesis by (simp add: remove1_append)
qed

lemma duration_match_PT: "duration_match (lit ''PT'' @ s) = Some (groups s)"
  by (simp add: lit_def)

lemma groups_encoding:
  assumes "part_ok h" "part_ok m" "part_ok s"
  shows "groups (unit_part h 0x48 @ unit_part m 0x4D @ unit_part s 0x53) =
           (map_option (\<lambda>n. n @ [0x48]) h, map_option (\<lambda>n. n @ [0x4D]) m,
            map_option (\<lambda>n. n @ [0x53]) s)"
proof -
  have miss: "component x (n @ y # r) = (None, n @ y # r)"
    if "digits n" "\<not> isDigit y" "y \<noteq> x" for x y n r
    using that by (simp add: component_miss digits_def)
  show ?thesis
    using assms
    by (cases h; cases m; cases s)
       (simp_all add: groups_def unit_part_def part_ok_def component_Nil component_hit
          miss letters_not_digits)
qed

text \<open>
  C5.  For every compact duration encoding, \<open>formatDuration\<close> returns the hours, the
  minutes padded to two digits and the seconds padded to two digits when there is an
  hours component, and otherwise the minutes as they are (\<open>0\<close> when there is no minutes
  component) and the seconds padded to two digits.
\<close>

theorem formatDuration_encoding:
  assumes "part_ok h" "part_ok m" "part_ok s"
  shows "formatDuration (encoding h m s) =
     Inr (case h of
            Some hours \<Rightarrow> hours @ lit '':'' @ padStart 2 0x30 (orEmpty m) @ lit '':'' @
                          padStart 2 0x30 (orEmpty s)
          | None \<Rightarrow> (case m of None \<Rightarrow> lit ''0'' | Some minutes \<Rightarrow> minutes) @ lit '':'' @
                    padStart 2 0x30 (orEmpty s))"
proof -
  have rm: "remove1 x (orEmpty (map_option (\<lambda>n. n @ [x]) d)) = orEmpty d"
    if "part_ok d" "\<not> isDigit x" for x d
    using that by (cases d) (simp_all add: orEmpty_def part_ok_def digits_def remove1_unit)
  have ne: "orEmpty d \<noteq> [] \<longleftrightarrow> d \<noteq> None" if "part_ok d" for d
    using that by (cases d) (simp_all add: orEmpty_def part_ok_def digits_def)
  have H: "remove1 0x48 (orEmpty (map_option (\<lambda>n. n @ [0x48]) h)) = orEmpty h"
    and M: "remove1 0x4D (orEmpty (map_option (\<lambda>n. n @ [0x4D]) m)) = orEmpty m"
    and S: "remove1 0x53 (orEmpty (map_option (\<lambda>n. n @ [0x53]) s)) = orEmpty s"
    using assms by (simp_all only: rm letters_not_digits not_False_eq_True)
  have "formatDuration (encoding h m s) =
      (if orEmpty h \<noteq> []
       then Inr (orEmpty h @ lit '':'' @ padStart 2 0x30 (orEmpty m) @ lit '':'' @
                 padStart 2 0x30 (orEmpty s))
       else Inr ((if orEmpty m \<noteq> [] then orEmpty m else lit ''0'') @ lit '':'' @
                 padStart 2 0x30 (orEmpty s)))"
    unfolding formatDuration_def encoding_def duration_match_PT groups_encoding [OF assms]
    by (simp only: option.case prod.case Let_def H M S)
  also have "\<dots> = Inr (case h of
            Some hours \<Rightarrow> hours @ lit '':'' @ padStart 2 0x30 (orEmpty m) @ lit '':'' @
                          padStart 2 0x30 (orEmpty s)
          | None \<Rightarrow> (case m of None \<Rightarrow> lit ''0'' | Some minutes \<Rightarrow> minutes) @ lit '':'' @
                    padStart 2 0x30 (orEmpty s))"
    using ne [OF assms(1)] ne [OF assms(2)]
    by (cases h; cases m) (simp_all, simp_all add: orEmpty_def)
  finally show ?thesis .
qed

text \<open>
  The encodings of 2 hours 15 minutes 33 seconds, of 15 minutes 33 seconds, of 33 seconds
  and of no time at all.
\<close>

theorem formatDuration_examples:
  "formatDuration (lit ''PT2H15M33S'') = Inr (lit ''2:15:33'') \<and>
   formatDuration (lit ''PT15M33S'') = Inr (lit ''15:33'') \<and>
   formatDuration (lit ''PT33S'') = Inr (lit ''0:33'') \<and>
   formatDuration (lit ''PT0S'') = Inr (lit ''0:00'')"
proof -
  have a: "part_ok (Some (lit ''2''))" "part_ok (Some (lit ''15''))" "part_ok (Some (lit ''33''))"
    "part_ok (Some (lit ''0''))" "part_ok None"
    by (simp_all add: part_ok_def digits_def isDigit_def lit_def)
  have 1: "formatDuration (lit ''PT2H15M33S'') = Inr (lit ''2:15:33'')"
    using formatDuration_encoding [OF a(1) a(2) a(3)]
    by (simp add: encoding_def unit_part_def lit_def padStart_def orEmpty_def)
  have 2: "formatDuration (lit ''PT15M33S'') = Inr (lit ''15:33'')"
    using formatDuration_encoding [OF a(5) a(2) a(3)]
    by (simp add: encoding_def unit_part_def lit_def padStart_def orEmpty_def)
  have 3: "formatDuration (lit ''PT33S'') = Inr (lit ''0:33'')"
    using formatDuration_encoding [OF a(5) a(5) a(3)]
    by (simp add: encoding_def unit_part_def lit_def padStart_def orEmpty_def)
  have 4: "formatDuration (lit ''PT0S'') = Inr (lit ''0:00'')"
    using formatDuration_encoding [OF a(5) a(5) a(4)]
    by (simp add: encoding_def unit_part_def lit_def padStart_def orEmpty_def)
  from 1 2 3 4 show ?thesis by blast
qed

lemma duration_match_sublist: "duration_match s \<noteq> None \<longleftrightarrow> sublist (lit ''PT'') s"
proof (induction s rule: duration_match.induct)
  case (1 a b s)
  show ?case
  proof (cases "a = 0x50 \<and> b = 0x54")
    case True
    then have "prefix (lit ''PT'') (a # b # s)" by (simp add: lit_def)
    then show ?thesis using True by (simp add: sublist_Cons_right)
  next
    case False
    then have np: "\<not> prefix (lit ''PT'') (a # b # s)" by (auto simp: lit_def)
    from False have "duration_match (a # b # s) = duration_match (b # s)" by auto
    with 1 [OF False] np show ?thesis by (simp only: sublist_Cons_right [of _ a] simp_thms)
  qed
qed (simp_all add: lit_def sublist_Cons_right)

text \<open>
  \<open>formatDuration\<close> returns a string for exactly the strings that contain \<open>PT\<close>, and
  throws the TypeError of \<open>match[1]\<close> on \<open>null\<close> for all others.
\<close>

lemma formatDuration_returns:
  "(\<exists>r. formatDuration s = Inr r) \<longleftrightarrow> sublist (lit ''PT'') s"
  unfolding duration_match_sublist [symmetric]
  by (cases "duration_match s") (auto simp: formatDuration_def Let_def)

lemma formatDuration_throws:
  "formatDuration s = Inl TypeError \<longleftrightarrow> \<not> sublist (lit ''PT'') s"
  unfolding duration_match_sublist [symmetric]
  by (cases "duration_match s") (auto simp: formatDuration_def Let_def split: if_splits)

section \<open>Properties of truncateText\<close>

lemma trim_decompose:
  "\<exists>l r. s = l @ trim s @ r \<and> list_all isWhiteSpace l \<and> list_all isWhiteSpace r"
proof -
  let ?l = "takeWhile isWhiteSpace s"
  let ?m = "dropWhile isWhiteSpace s"
  let ?r = "rev (takeWhile isWhiteSpace (rev ?m))"
  have 1: "s = ?l @ ?m" by simp
  have "rev (takeWhile isWhiteSpace (rev ?m) @ dropWhile isWhiteSpace (rev ?m)) = ?m"
    by (simp only: takeWhile_dropWhile_id rev_rev_ident)
  then have 2: "?m = trim s @ ?r" by (simp only: rev_append trim_def)
  have 3: "list_all isWhiteSpace ?l" by (simp add: list_all_iff) (metis set_takeWhileD)
  have 4: "list_all isWhiteSpace ?r" by (simp add: list_all_iff) (metis set_takeWhileD)
  from 1 2 have "s = ?l @ trim s @ ?r" by simp
  with 3 4 show ?thesis by blast
qed

lemma trim_ends:
  "trim s = [] \<or> (\<not> isWhiteSpace (hd (trim s)) \<and> \<not> isWhiteSpace (last (trim s)))"
proof (cases "trim s = []")
  case True
  then show ?thesis by simp
next
  case False
  let ?m = "dropWhile isWhiteSpace s"
  let ?d = "dropWhile isWhiteSpace (rev ?m)"
  have t: "trim s = rev ?d" by (simp add: trim_def)
  with False have dne: "?d \<noteq> []" by simp
  then have "\<not> isWhiteSpace (hd ?d)" by (rule hd_dropWhile)
  then have last: "\<not> isWhiteSpace (last (trim s))" using dne by (simp add: t last_rev)
  have mne: "?m \<noteq> []"
  proof
    assume e: "?m = []"
    have "?d = []" unfolding e by simp
    with dne show False by (simp only:)
  qed
  then have hm: "\<not> isWhiteSpace (hd ?m)" by (rule hd_dropWhile)
  have "rev (takeWhile isWhiteSpace (rev ?m) @ ?d) = ?m"
    by (simp only: takeWhile_dropWhile_id rev_rev_ident)
  then have "?m = trim s @ rev (takeWhile isWhiteSpace (rev ?m))" by (simp only: rev_append t)
  then have "hd ?m = hd (trim s)" using False by (metis hd_append2)
  with hm last show ?thesis by simp
qed

text \<open>
  C6, as the code has it.  A text no longer than the maximum is returned unchanged.  Of a
  longer text the first \<open>maxLength\<close> code units are taken (none when \<open>maxLength\<close> is
  negative), the white space at both ends of them is removed, at the start as well as at
  the end, and \<open>...\<close> is appended to what is kept.
\<close>

theorem truncateText_cut:
  "(int (length text) \<le> maxLength \<longrightarrow> truncateText text maxLength = text) \<and>
   (maxLength < int (length text) \<longrightarrow>
      (\<exists>l kept r. take (nat maxLength) text = l @ kept @ r \<and>
         list_all isWhiteSpace l \<and> list_all isWhiteSpace r \<and>
         (kept = [] \<or> (\<not> isWhiteSpace (hd kept) \<and> \<not> isWhiteSpace (last kept))) \<and>
         truncateText text maxLength = kept @ lit ''...''))"
proof -
  obtain l r where "take (nat maxLength) text = l @ trim (take (nat maxLength) text) @ r"
    "list_all isWhiteSpace l" "list_all isWhiteSpace r"
    using trim_decompose by blast
  with trim_ends [of "take (nat maxLength) text"]
  show ?thesis
    by (auto simp: truncateText_def substring0_def)
qed

text \<open>A text of two code units with the maximum 5, and a text of five with the maximum 4.\<close>

theorem truncateText_cut_witness:
  "truncateText (lit ''ab'') 5 = lit ''ab'' \<and>
   (\<exists>l kept r. take 4 (lit ''ab  c'') = l @ kept @ r \<and>
      list_all isWhiteSpace l \<and> list_all isWhiteSpace r \<and>
      (kept = [] \<or> (\<not> isWhiteSpace (hd kept) \<and> \<not> isWhiteSpace (last kept))) \<and>
      truncateText (lit ''ab  c'') 4 = kept @ lit ''...'')"
  using truncateText_cut [of "lit ''ab''" 5] truncateText_cut [of "lit ''ab  c''" 4]
  by (simp add: lit_def)

text \<open>
  C6 as the claim states it, with only the trailing white space removed, fails on a text
  that has white space at the start of the part that is kept: of \<open>'' abc''\<close> with the
  maximum 2 the code returns \<open>''a...''\<close>, not \<open>'' a...''\<close>.
\<close>

theorem truncateText_leading_counterexample:
  "truncateText (lit '' abc'') 2 = lit ''a...'' \<and>
   trimEnd (substring0 (lit '' abc'') 2) @ lit ''...'' = lit '' a...'' \<and>
   truncateText (lit '' abc'') 2 \<noteq> trimEnd (substring0 (lit '' abc'') 2) @ lit ''...''"
  by (simp add: truncateText_def substring0_def trim_def trimEnd_def isWhiteSpace_def lit_def)

section \<open>Properties of the join\<close>

text \<open>
  C2.  The join yields one video per playlist item, in the order of the items, each with
  the id, title, description and date of its item, whatever the detail response holds.
\<close>

theorem videosWithDetails_one_per_item:
  "length (videosWithDetails videosData allVideos) = length allVideos \<and>
   map video_id (videosWithDetails videosData allVideos) =
     map (\<lambda>item. videoId (contentDetails item)) allVideos \<and>
   map video_title (videosWithDetails videosData allVideos) =
     map (\<lambda>item. title (snippet item)) allVideos \<and>
   map video_description (videosWithDetails videosData allVideos) =
     map (\<lambda>item. description (snippet item)) allVideos \<and>
   map video_publishedAt (videosWithDetails videosData allVideos) =
     map (\<lambda>item. publishedAt (snippet item)) allVideos"
  by (simp add: videosWithDetails_def with_details_def Let_def comp_def)

lemma with_details_no_match:
  assumes "find (\<lambda>v. resource_id v = videoId (contentDetails item)) (resources videosData) = None"
  shows "video_duration (with_details videosData item) = lit ''PT0S''"
    and "video_viewCount (with_details videosData item) = lit ''0''"
  using assms by (simp_all add: with_details_def or_default_def)

text \<open>
  C3.  An item whose video id no detail record has still gets its video, at its own
  position, with the duration \<open>PT0S\<close> and the view count \<open>0\<close>.
\<close>

theorem videosWithDetails_defaults:
  assumes "i < length allVideos"
    and "\<forall>v \<in> set (resources videosData).
           resource_id v \<noteq> videoId (contentDetails (allVideos ! i))"
  shows "length (videosWithDetails videosData allVideos) = length allVideos \<and>
         video_id (videosWithDetails videosData allVideos ! i) =
           videoId (contentDetails (allVideos ! i)) \<and>
         video_duration (videosWithDetails videosData allVideos ! i) = lit ''PT0S'' \<and>
         video_viewCount (videosWithDetails videosData allVideos ! i) = lit ''0''"
proof -
  from assms(2)
  have "find (\<lambda>v. resource_id v = videoId (contentDetails (allVideos ! i)))
          (resources videosData) = None"
    by (simp add: find_None_iff)
  then show ?thesis
    using assms(1) with_details_no_match [of "allVideos ! i" videosData]
    by (simp add: videosWithDetails_def) (simp add: with_details_def)
qed

text \<open>The three example items against the two example records: \<open>b\<close> has no record.\<close>

theorem videosWithDetails_defaults_witness:
  "length (videosWithDetails ex_videos [ex_item ''a'', ex_item ''b'', ex_item ''c'']) = 3 \<and>
   video_id (videosWithDetails ex_videos [ex_item ''a'', ex_item ''b'', ex_item ''c''] ! 1) =
     lit ''b'' \<and>
   video_duration (videosWithDetails ex_videos [ex_item ''a'', ex_item ''b'', ex_item ''c''] ! 1) =
     lit ''PT0S'' \<and>
   video_viewCount (videosWithDetails ex_videos [ex_item ''a'', ex_item ''b'', ex_item ''c''] ! 1) =
     lit ''0''"
  using videosWithDetails_defaults [of 1 "[ex_item ''a'', ex_item ''b'', ex_item ''c'']" ex_videos]
  by (simp add: ex_item_def ex_resource_def ex_videos_def lit_def)

section \<open>Properties of the pagination loop\<close>

lemma length_page_urls: "length (page_urls playlistId key pageToken pages) = length pages"
  by (induction pages arbitrary: pageToken) simp_all

text \<open>Pages that carry a cursor are gathered and the loop goes on with the last cursor.\<close>

lemma fetch_pages_continues:
  assumes "continues net playlistId key pageToken log pages"
  shows "fetch_pages net playlistId key allVideos pageToken log =
         fetch_pages net playlistId key (allVideos @ concat (map items pages))
           (last_cursor pageToken pages) (log @ page_urls playlistId key pageToken pages)"
  using assms
proof (induction pages arbitrary: allVideos pageToken log)
  case Nil
  show ?case by simp
next
  case (Cons data rest)
  let ?url = "playlistUrl playlistId key pageToken"
  from Cons.prems have ok: "ok (playlistItems net log ?url)"
    and data: "json (playlistItems net log ?url) = data"
    and more: "cursor data \<noteq> []"
    and rest: "continues net playlistId key (cursor data) (log @ [?url]) rest"
    by (simp_all add: Let_def)
  have "fetch_pages net playlistId key allVideos pageToken log =
        fetch_pages net playlistId key (allVideos @ items data) (cursor data) (log @ [?url])"
    using ok data more by (subst fetch_pages.simps) (simp add: Let_def cursor_def)
  also note Cons.IH [OF rest]
  finally show ?case by simp
qed

lemma fetch_pages_serves:
  assumes "serves net playlistId key pageToken log pages"
  shows "fetch_pages net playlistId key allVideos pageToken log =
         Some (Inr (allVideos @ concat (map items pages)),
               log @ page_urls playlistId key pageToken pages)"
  using assms
proof (induction pages arbitrary: allVideos pageToken log)
  case Nil
  then show ?case by simp
next
  case (Cons data rest)
  let ?url = "playlistUrl playlistId key pageToken"
  from Cons.prems have ok: "ok (playlistItems net log ?url)"
    and data: "json (playlistItems net log ?url) = data"
    by (simp_all add: Let_def)
  show ?case
  proof (cases "rest = []")
    case True
    with Cons.prems have "cursor data = []" by (simp add: Let_def)
    with ok data True show ?thesis
      by (subst fetch_pages.simps) (simp add: Let_def cursor_def)
  next
    case False
    with Cons.prems have more: "cursor data \<noteq> []"
      and rest: "serves net playlistId key (cursor data) (log @ [?url]) rest"
      by (simp_all add: Let_def)
    have "fetch_pages net playlistId key allVideos pageToken log =
          fetch_pages net playlistId key (allVideos @ items data) (cursor data) (log @ [?url])"
      using ok data more by (subst fetch_pages.simps) (simp add: Let_def cursor_def)
    also note Cons.IH [OF rest]
    finally show ?thesis by simp
  qed
qed

lemma fetch_pages_fails:
  assumes "\<not> ok (playlistItems net log (playlistUrl playlistId key pageToken))"
  shows "fetch_pages net playlistId key allVideos pageToken log =
         Some (Inl (playlist_error (playlistItems net log (playlistUrl playlistId key pageToken))),
               log @ [playlistUrl playlistId key pageToken])"
  using assms by (subst fetch_pages.simps) (simp add: Let_def)

text \<open>
  C1.  When the playlist is spread over any number of pages, the loop, entered as
  \<open>fetchPlaylistVideos\<close> enters it (nothing gathered, no cursor), returns: its result is
  the items of all pages, page after page in the order fetched, as many items as the
  pages hold together; it has made one request per page, each with the cursor of the page
  before, and has stopped at the first page without a cursor.
\<close>

theorem fetch_pages_all:
  assumes "serves net playlistId key [] log pages"
  shows "fetch_pages net playlistId key [] [] log =
           Some (Inr (concat (map items pages)), log @ page_urls playlistId key [] pages) \<and>
         length (concat (map items pages)) = sum_list (map (\<lambda>data. length (items data)) pages) \<and>
         length (page_urls playlistId key [] pages) = length pages"
  using fetch_pages_serves [OF assms, of "[]"]
  by (simp add: length_concat length_page_urls comp_def)

lemma ex_serves: "serves ex_net (lit ''PL'') (lit ''K'') [] [] [ex_page1, ex_page2]"
  by (simp add: ex_net_def Let_def cursor_def orEmpty_def ex_page1_def ex_page2_def
      ex_success_def playlistUrl_def lit_def)

text \<open>The example playlist: two requests, the second with the cursor \<open>T2\<close>, three items.\<close>

theorem fetch_pages_all_witness:
  "fetch_pages ex_net (lit ''PL'') (lit ''K'') [] [] [] =
     Some (Inr [ex_item ''a'', ex_item ''b'', ex_item ''c''],
           [playlistUrl (lit ''PL'') (lit ''K'') [],
            playlistUrl (lit ''PL'') (lit ''K'') (lit ''T2'')])"
  using fetch_pages_all [OF ex_serves]
  by (simp add: ex_page1_def ex_page2_def cursor_def orEmpty_def)

section \<open>Properties of fetchPlaylistVideos\<close>

lemma fetch_body_page_fails:
  assumes "CONFIG g = Some c"
    and "playlistId = template_text (YOUTUBE_PLAYLIST_ID g)"
    and "key = template_text (YOUTUBE_API_KEY c)"
    and "continues net playlistId key [] log pages"
    and "\<not> ok (playlistItems net (log @ page_urls playlistId key [] pages)
                (playlistUrl playlistId key (last_cursor [] pages)))"
  shows "fetch_body g net log =
     Some (Inl (playlist_error (playlistItems net (log @ page_urls playlistId key [] pages)
                (playlistUrl playlistId key (last_cursor [] pages)))),
           log @ page_urls playlistId key [] pages @
             [playlistUrl playlistId key (last_cursor [] pages)])"
  using assms(1) fetch_pages_continues [OF assms(4), of "[]"] fetch_pages_fails [OF assms(5)]
  by (simp add: fetch_body_def assms(2,3) [symmetric] Let_def)

lemma fetch_body_videos_fail:
  assumes "CONFIG g = Some c"
    and "playlistId = template_text (YOUTUBE_PLAYLIST_ID g)"
    and "key = template_text (YOUTUBE_API_KEY c)"
    and "serves net playlistId key [] log pages"
    and "detailsUrl = videosUrl (join (lit '','')
                 (map (\<lambda>item. videoId (contentDetails item)) (concat (map items pages)))) key"
    and "\<not> ok (videos net (log @ page_urls playlistId key [] pages) detailsUrl)"
  shows "fetch_body g net log =
     Some (Inl (videos_error (videos net (log @ page_urls playlistId key [] pages) detailsUrl)),
           log @ page_urls playlistId key [] pages @ [detailsUrl])"
  using assms(1,6) fetch_pages_serves [OF assms(4), of "[]"]
  by (simp add: fetch_body_def assms(2,3,5) [symmetric] Let_def)

text \<open>
  When all pages and the details arrive, the result is the join of all items with the
  details, after one more request.
\<close>

lemma fetch_body_videos_ok:
  assumes "CONFIG g = Some c"
    and "playlistId = template_text (YOUTUBE_PLAYLIST_ID g)"
    and "key = template_text (YOUTUBE_API_KEY c)"
    and "serves net playlistId key [] log pages"
    and "detailsUrl = videosUrl (join (lit '','')
                 (map (\<lambda>item. videoId (contentDetails item)) (concat (map items pages)))) key"
    and "ok (videos net (log @ page_urls playlistId key [] pages) detailsUrl)"
  shows "fetch_body g net log =
     Some (Inr (videosWithDetails
                 (json (videos net (log @ page_urls playlistId key [] pages) detailsUrl))
                 (concat (map items pages))),
           log @ page_urls playlistId key [] pages @ [detailsUrl])"
  using assms(1,6) fetch_pages_serves [OF assms(4), of "[]"]
  by (simp add: fetch_body_def assms(2,3,5) [symmetric] Let_def)

text \<open>
  C4.  With a configuration present: when the pages \<open>pages\<close> have arrived, each with a
  cursor, and the response to the next page request is not a success, and likewise when
  all pages have arrived and the response to the one detail request is not a success,
  \<open>fetchPlaylistVideos\<close> ends with the error thrown (\<open>Inl\<close>), whose message holds the
  status of that response in decimal; no video is returned, whatever had been gathered.
  The page afterwards has the requests made and the error on the console.
\<close>

theorem fetchPlaylistVideos_fails:
  assumes "CONFIG g = Some c"
    and "playlistId = template_text (YOUTUBE_PLAYLIST_ID g)"
    and "key = template_text (YOUTUBE_API_KEY c)"
  shows
   "(continues net playlistId key [] (requests p) pages \<and>
     response = playlistItems net (requests p @ page_urls playlistId key [] pages)
                  (playlistUrl playlistId key (last_cursor [] pages)) \<and>
     \<not> ok response \<longrightarrow>
     fetchPlaylistVideos g net p =
       Some (Inl (Error (lit ''Error al obtener la playlist: '' @ decimal (status response) @
                         lit '' '' @ statusText response)),
             p\<lparr>requests := requests p @ page_urls playlistId key [] pages @
                             [playlistUrl playlistId key (last_cursor [] pages)],
               console := console p @
                 [Error (lit ''Error al obtener la playlist: '' @ decimal (status response) @
                         lit '' '' @ statusText response)]\<rparr>)) \<and>
    (serves net playlistId key [] (requests p) pages \<and>
     detailsUrl = videosUrl (join (lit '','')
             (map (\<lambda>item. videoId (contentDetails item)) (concat (map items pages)))) key \<and>
     videosResponse = videos net (requests p @ page_urls playlistId key [] pages) detailsUrl \<and>
     \<not> ok videosResponse \<longrightarrow>
     fetchPlaylistVideos g net p =
       Some (Inl (Error (lit ''Error al obtener detalles de v'' @ [0xED] @ lit ''deos: '' @
                         decimal (status videosResponse))),
             p\<lparr>requests := requests p @ page_urls playlistId key [] pages @ [detailsUrl],
               console := console p @
                 [Error (lit ''Error al obtener detalles de v'' @ [0xED] @ lit ''deos: '' @
                         decimal (status videosResponse))]\<rparr>))"
proof (intro conjI impI)
  assume a: "continues net playlistId key [] (requests p) pages \<and>
     response = playlistItems net (requests p @ page_urls playlistId key [] pages)
                  (playlistUrl playlistId key (last_cursor [] pages)) \<and>
     \<not> ok response"
  then have "\<not> ok (playlistItems net (requests p @ page_urls playlistId key [] pages)
                  (playlistUrl playlistId key (last_cursor [] pages)))" by blast
  from fetch_body_page_fails [OF assms _ this] a
  show "fetchPlaylistVideos g net p =
       Some (Inl (Error (lit ''Error al obtener la playlist: '' @ decimal (status response) @
                         lit '' '' @ statusText response)),
             p\<lparr>requests := requests p @ page_urls playlistId key [] pages @
                             [playlistUrl playlistId key (last_cursor [] pages)],
               console := console p @
                 [Error (lit ''Error al obtener la playlist: '' @ decimal (status response) @
                         lit '' '' @ statusText response)]\<rparr>)"
    by (simp add: fetchPlaylistVideos_def playlist_error_def)
next
  assume a: "serves net playlistId key [] (requests p) pages \<and>
     detailsUrl = videosUrl (join (lit '','')
             (map (\<lambda>item. videoId (contentDetails item)) (concat (map items pages)))) key \<and>
     videosResponse = videos net (requests p @ page_urls playlistId key [] pages) detailsUrl \<and>
     \<not> ok videosResponse"
  then have "\<not> ok (videos net (requests p @ page_urls playlistId key [] pages) detailsUrl)"
    by blast
  from fetch_body_videos_fail [OF assms _ _ this] a
  show "fetchPlaylistVideos g net p =
       Some (Inl (Error (lit ''Error al obtener detalles de v'' @ [0xED] @ lit ''deos: '' @
                         decimal (status videosResponse))),
             p\<lparr>requests := requests p @ page_urls playlistId key [] pages @ [detailsUrl],
               console := console p @
                 [Error (lit ''Error al obtener detalles de v'' @ [0xED] @ lit ''deos: '' @
                         decimal (status videosResponse))]\<rparr>)"
    by (simp add: fetchPlaylistVideos_def videos_error_def)
qed

lemma ex_continues:
  "continues ex_net_page_fails (lit ''PL'') (lit ''K'') [] [] [ex_page1]"
  by (simp add: ex_net_page_fails_def Let_def cursor_def orEmpty_def ex_page1_def
      ex_success_def lit_def)

lemma ex_serves_videos_fail:
  "serves ex_net_videos_fail (lit ''PL'') (lit ''K'') [] [] [ex_page1, ex_page2]"
  using ex_serves by (simp add: ex_net_videos_fail_def Let_def)

lemma decimal_examples: "decimal 403 = lit ''403''" "decimal 500 = lit ''500''"
  by (simp_all add: decimal.simps lit_def)

text \<open>
  The provider that refuses the second page with 403, and the provider that refuses the
  details with 500 after both pages.
\<close>

theorem fetchPlaylistVideos_fails_witness:
  "fetchPlaylistVideos ex_globals ex_net_page_fails ex_page =
     Some (Inl (Error (lit ''Error al obtener la playlist: 403 Forbidden'')),
           ex_page\<lparr>requests := [playlistUrl (lit ''PL'') (lit ''K'') [],
                                 playlistUrl (lit ''PL'') (lit ''K'') (lit ''T2'')],
                   console := [Error (lit ''Error al obtener la playlist: 403 Forbidden'')]\<rparr>) \<and>
   fetchPlaylistVideos ex_globals ex_net_videos_fail ex_page =
     Some (Inl (Error (lit ''Error al obtener detalles de v'' @ [0xED] @ lit ''deos: 500'')),
           ex_page\<lparr>requests := [playlistUrl (lit ''PL'') (lit ''K'') [],
                                 playlistUrl (lit ''PL'') (lit ''K'') (lit ''T2''),
                                 videosUrl (lit ''a,b,c'') (lit ''K'')],
                   console := [Error (lit ''Error al obtener detalles de v'' @ [0xED] @
                                      lit ''deos: 500'')]\<rparr>)"
proof -
  have g: "CONFIG ex_globals = Some \<lparr> YOUTUBE_API_KEY = Some (lit ''K'') \<rparr>"
    "lit ''PL'' = template_text (YOUTUBE_PLAYLIST_ID ex_globals)"
    "lit ''K'' = template_text (YOUTUBE_API_KEY \<lparr> YOUTUBE_API_KEY = Some (lit ''K'') \<rparr>)"
    by (simp_all add: ex_globals_def template_text_def)
  have 1: "fetchPlaylistVideos ex_globals ex_net_page_fails ex_page =
     Some (Inl (Error (lit ''Error al obtener la playlist: 403 Forbidden'')),
           ex_page\<lparr>requests := [playlistUrl (lit ''PL'') (lit ''K'') [],
                                 playlistUrl (lit ''PL'') (lit ''K'') (lit ''T2'')],
                   console := [Error (lit ''Error al obtener la playlist: 403 Forbidden'')]\<rparr>)"
    using fetchPlaylistVideos_fails [OF g, where net = ex_net_page_fails and p = ex_page
        and pages = "[ex_page1]" and response = "ex_failure 403 ''Forbidden'' ex_page2"]
      ex_continues
    by (simp add: ex_page_def ex_net_page_fails_def ex_failure_def decimal_examples cursor_def
        orEmpty_def ex_page1_def lit_def)
  have 2: "fetchPlaylistVideos ex_globals ex_net_videos_fail ex_page =
     Some (Inl (Error (lit ''Error al obtener detalles de v'' @ [0xED] @ lit ''deos: 500'')),
           ex_page\<lparr>requests := [playlistUrl (lit ''PL'') (lit ''K'') [],
                                 playlistUrl (lit ''PL'') (lit ''K'') (lit ''T2''),
                                 videosUrl (lit ''a,b,c'') (lit ''K'')],
                   console := [Error (lit ''Error al obtener detalles de v'' @ [0xED] @
                                      lit ''deos: 500'')]\<rparr>)"
    using fetchPlaylistVideos_fails [OF g, where net = ex_net_videos_fail and p = ex_page
        and pages = "[ex_page1, ex_page2]" and detailsUrl = "videosUrl (lit ''a,b,c'') (lit ''K'')"
        and videosResponse = "ex_failure 500 ''Internal Server Error'' ex_videos"]
      ex_serves_videos_fail
    by (simp add: ex_page_def ex_net_videos_fail_def ex_failure_def decimal_examples cursor_def
        orEmpty_def ex_page1_def ex_page2_def ex_item_def lit_def)
  from 1 2 show ?thesis by (rule conjI)
qed

section \<open>Properties of initializePlaylist\<close>

lemma set_innerHTML_Some:
  "videos_grid p \<noteq> None \<Longrightarrow> set_innerHTML html p = Inr (p\<lparr>videos_grid := Some html\<rparr>)"
  by (auto simp: set_innerHTML_def)

lemma set_innerHTML_requests: "set_innerHTML html p = Inr q \<Longrightarrow> requests q = requests p"
  by (auto simp: set_innerHTML_def split: option.splits)

text \<open>
  C7.  On a page that has the \<open>.videos-grid\<close> element: when \<open>CONFIG\<close> is missing, when
  the key is missing, empty or the placeholder \<open>TU_API_KEY_AQUI\<close>, and when the playlist
  id is missing or empty, \<open>initializePlaylist\<close> ends normally with the error state of
  that case in the grid (configuration missing, key missing, playlist id missing) and
  with the requests of the page as they were: no request is made.  Also on a page without
  the element, where \<open>showError\<close> itself throws, the call ends with the requests as they
  were.
\<close>

theorem initializePlaylist_halts:
  "(videos_grid p \<noteq> None \<and> CONFIG g = None \<longrightarrow>
       initializePlaylist h g net p =
         Some (None, p\<lparr>videos_grid := Some (error_html (YOUTUBE_PLAYLIST_ID g) config_missing)\<rparr>)) \<and>
    (videos_grid p \<noteq> None \<and> CONFIG g = Some c \<and>
       (orEmpty (YOUTUBE_API_KEY c) = [] \<or> YOUTUBE_API_KEY c = Some (lit ''TU_API_KEY_AQUI'')) \<longrightarrow>
       initializePlaylist h g net p =
         Some (None, p\<lparr>videos_grid := Some (error_html (YOUTUBE_PLAYLIST_ID g) key_missing)\<rparr>)) \<and>
    (videos_grid p \<noteq> None \<and> CONFIG g = Some c \<and> orEmpty (YOUTUBE_API_KEY c) \<noteq> [] \<and>
       YOUTUBE_API_KEY c \<noteq> Some (lit ''TU_API_KEY_AQUI'') \<and>
       orEmpty (YOUTUBE_PLAYLIST_ID g) = [] \<longrightarrow>
       initializePlaylist h g net p =
         Some (None,
           p\<lparr>videos_grid := Some (error_html (YOUTUBE_PLAYLIST_ID g) playlist_id_missing)\<rparr>)) \<and>
    requests (p\<lparr>videos_grid := Some html\<rparr>) = requests p \<and>
    (CONFIG g = None \<or>
     (CONFIG g = Some c \<and>
       (orEmpty (YOUTUBE_API_KEY c) = [] \<or> YOUTUBE_API_KEY c = Some (lit ''TU_API_KEY_AQUI''))) \<or>
     orEmpty (YOUTUBE_PLAYLIST_ID g) = [] \<longrightarrow>
     (\<exists>e q. initializePlaylist h g net p = Some (e, q) \<and> requests q = requests p))"
proof -
  have halts: "\<exists>e q. finish p (showError g msg p) = Some (e, q) \<and> requests q = requests p"
    for msg
    by (cases "showError g msg p")
       (auto simp: finish_def showError_def dest: set_innerHTML_requests)
  have last: "\<exists>e q. initializePlaylist h g net p = Some (e, q) \<and> requests q = requests p"
    if "CONFIG g = None \<or>
     (CONFIG g = Some c \<and>
       (orEmpty (YOUTUBE_API_KEY c) = [] \<or> YOUTUBE_API_KEY c = Some (lit ''TU_API_KEY_AQUI''))) \<or>
     orEmpty (YOUTUBE_PLAYLIST_ID g) = []"
  proof (cases "CONFIG g")
    case None
    then show ?thesis using halts by (simp add: initializePlaylist_def)
  next
    case (Some c')
    with that show ?thesis using halts by (auto simp: initializePlaylist_def)
  qed
  show ?thesis
    using last
    by (auto simp: initializePlaylist_def showError_def set_innerHTML_Some finish_def
        simp del: not_None_eq)
qed

text \<open>
  The configuration of the repository, which holds the placeholder; no configuration; and
  a configuration with a key but no playlist id.  The provider is never asked.
\<close>

theorem initializePlaylist_halts_witness:
  "initializePlaylist ex_host
     \<lparr> CONFIG = Some repository_config, YOUTUBE_PLAYLIST_ID = Some (lit ''PL'') \<rparr> ex_net ex_page =
     Some (None, ex_page\<lparr>videos_grid := Some (error_html (Some (lit ''PL'')) key_missing)\<rparr>) \<and>
   requests (ex_page\<lparr>videos_grid := Some (error_html (Some (lit ''PL'')) key_missing)\<rparr>) = [] \<and>
   initializePlaylist ex_host \<lparr> CONFIG = None, YOUTUBE_PLAYLIST_ID = Some (lit ''PL'') \<rparr>
     ex_net ex_page =
     Some (None, ex_page\<lparr>videos_grid := Some (error_html (Some (lit ''PL'')) config_missing)\<rparr>) \<and>
   initializePlaylist ex_host
     \<lparr> CONFIG = Some \<lparr> YOUTUBE_API_KEY = Some (lit ''K'') \<rparr>, YOUTUBE_PLAYLIST_ID = None \<rparr>
     ex_net ex_page =
     Some (None, ex_page\<lparr>videos_grid := Some (error_html None playlist_id_missing)\<rparr>)"
  using
    initializePlaylist_halts [of ex_page
      "\<lparr> CONFIG = Some repository_config, YOUTUBE_PLAYLIST_ID = Some (lit ''PL'') \<rparr>"
      ex_host ex_net repository_config "error_html (Some (lit ''PL'')) key_missing"]
    initializePlaylist_halts [of ex_page
      "\<lparr> CONFIG = None, YOUTUBE_PLAYLIST_ID = Some (lit ''PL'') \<rparr>" ex_host ex_net]
    initializePlaylist_halts [of ex_page
      "\<lparr> CONFIG = Some \<lparr> YOUTUBE_API_KEY = Some (lit ''K'') \<rparr>, YOUTUBE_PLAYLIST_ID = None \<rparr>"
      ex_host ex_net "\<lparr> YOUTUBE_API_KEY = Some (lit ''K'') \<rparr>"]
  by (simp add: ex_page_def repository_config_def orEmpty_def lit_def)

section \<open>Properties of renderVideos\<close>

lemma join_empty: "join [] xs = concat xs"
  by (induction "[] :: jsstr" xs rule: join.induct) simp_all

lemma createVideoCard_returns:
  "(\<exists>html. createVideoCard h v = Inr html) \<longleftrightarrow> sublist (lit ''PT'') (video_duration v)"
  unfolding formatDuration_returns [symmetric]
  by (cases "formatDuration (video_duration v)") (simp_all add: createVideoCard_def Let_def)

lemma createVideoCard_throws:
  "\<not> sublist (lit ''PT'') (video_duration v) \<Longrightarrow> createVideoCard h v = Inl TypeError"
  by (simp add: createVideoCard_def formatDuration_throws [symmetric])

lemma video_cards_returns:
  assumes "\<forall>v \<in> set vs. sublist (lit ''PT'') (video_duration v)"
  shows "\<exists>htmls. video_cards h vs = Inr htmls \<and> map (createVideoCard h) vs = map Inr htmls"
  using assms
proof (induction vs)
  case Nil
  show ?case by simp
next
  case (Cons v vs)
  then obtain htmls where 1: "video_cards h vs = Inr htmls"
    "map (createVideoCard h) vs = map Inr htmls" by auto
  from Cons.prems obtain html where 2: "createVideoCard h v = Inr html"
    using createVideoCard_returns [of h v] by auto
  from 1 2 have "video_cards h (v # vs) = Inr (html # htmls) \<and>
     map (createVideoCard h) (v # vs) = map Inr (html # htmls)" by simp
  then show ?case by blast
qed

lemma renderVideos_Inr:
  assumes "vs \<noteq> []" and "video_cards h vs = Inr htmls" and "videos_grid p \<noteq> None"
  shows "renderVideos h vs p =
       Inr (p\<lparr>videos_grid := Some (concat htmls),
              videos_note := map_option (\<lambda>old. note_text (length vs)) (videos_note p)\<rparr>)"
  using assms
  by (cases "videos_note p") (simp_all add: renderVideos_def set_innerHTML_Some join_empty)

text \<open>
  C8, as the code has it.  For a non-empty list of videos whose durations all contain
  \<open>PT\<close>, on a page that has the \<open>.videos-grid\<close> element, \<open>renderVideos\<close> returns
  normally; the grid then holds the cards of the videos, one per video in the order of
  the list, and nothing else.  When the page has the \<open>.videos-note\<close> element, its text
  is then the number of videos in decimal, the Spanish word for video, with an \<open>s\<close>
  unless the number is 1, and the Spanish for \<open>in this playlist.\<close>, as the source
  spells them; when the page has no such element, no label is written.
\<close>

theorem renderVideos_cards:
  assumes "vs \<noteq> []"
    and "\<forall>v \<in> set vs. sublist (lit ''PT'') (video_duration v)"
    and "videos_grid p \<noteq> None"
  shows "\<exists>htmls. length htmls = length vs \<and> map (createVideoCard h) vs = map Inr htmls \<and>
     renderVideos h vs p =
       Inr (p\<lparr>videos_grid := Some (concat htmls),
              videos_note :=
                (case videos_note p of
                   None \<Rightarrow> None
                 | Some old \<Rightarrow>
                     Some (decimal (length vs) @ lit '' v'' @ [0xED] @ lit ''deo'' @
                           (if length vs = 1 then [] else lit ''s'') @
                           lit '' en esta lista de reproducci'' @ [0xF3] @ lit ''n.''))\<rparr>)"
proof -
  from video_cards_returns [OF assms(2)] obtain htmls
    where 1: "video_cards h vs = Inr htmls" and 2: "map (createVideoCard h) vs = map Inr htmls"
    by blast
  from 2 have 3: "length htmls = length vs" by (metis length_map)
  have "renderVideos h vs p =
       Inr (p\<lparr>videos_grid := Some (concat htmls),
              videos_note :=
                (case videos_note p of
                   None \<Rightarrow> None
                 | Some old \<Rightarrow>
                     Some (decimal (length vs) @ lit '' v'' @ [0xED] @ lit ''deo'' @
                           (if length vs = 1 then [] else lit ''s'') @
                           lit '' en esta lista de reproducci'' @ [0xF3] @ lit ''n.''))\<rparr>)"
    using renderVideos_Inr [OF assms(1) 1 assms(3)]
    by (cases "videos_note p") (simp_all add: note_text_def)
  with 2 3 show ?thesis by blast
qed

lemma decimal_Suc_examples:
  "decimal (Suc 0) = lit ''1''" "decimal (Suc (Suc (Suc 0))) = lit ''3''"
  by (simp_all add: decimal.simps lit_def)

lemma ex_video_PT:
  "sublist (lit ''PT'') (video_duration (ex_video ''PT5M''))"
  "sublist (lit ''PT'') (video_duration (ex_video ''PT2H15M33S''))"
  "sublist (lit ''PT'') (video_duration (ex_video ''PT0S''))"
  "\<not> sublist (lit ''PT'') (video_duration (ex_video ''P0D''))"
  by (simp_all add: ex_video_def lit_def sublist_Cons_right)

text \<open>Three videos and one video, on the page with both elements.\<close>

theorem renderVideos_cards_witness:
  "map_sum id videos_note
     (renderVideos ex_host [ex_video ''PT5M'', ex_video ''PT2H15M33S'', ex_video ''PT0S''] ex_page) =
     Inr (Some (lit ''3 v'' @ [0xED] @ lit ''deos en esta lista de reproducci'' @ [0xF3] @
                lit ''n.'')) \<and>
   map_sum id videos_note (renderVideos ex_host [ex_video ''PT5M''] ex_page) =
     Inr (Some (lit ''1 v'' @ [0xED] @ lit ''deo en esta lista de reproducci'' @ [0xF3] @
                lit ''n.''))"
proof -
  have g: "videos_grid ex_page \<noteq> None" and n: "videos_note ex_page = Some []"
    by (simp_all add: ex_page_def)
  have 3: "\<forall>v \<in> set [ex_video ''PT5M'', ex_video ''PT2H15M33S'', ex_video ''PT0S''].
             sublist (lit ''PT'') (video_duration v)"
    and 1: "\<forall>v \<in> set [ex_video ''PT5M'']. sublist (lit ''PT'') (video_duration v)"
    using ex_video_PT by simp_all
  from renderVideos_cards [OF _ 3 g, of ex_host] renderVideos_cards [OF _ 1 g, of ex_host]
  show ?thesis
    by (auto simp: n decimal_Suc_examples lit_def)
qed

text \<open>
  C8 as the claim states it fails on a page without the \<open>.videos-note\<close> element, which
  the code allows for: the call returns normally and no label is written.  It also fails
  on a list with a duration that has no \<open>PT\<close>, such as \<open>P0D\<close>: the call throws and
  renders no card.
\<close>

theorem renderVideos_label_counterexample:
  "map_sum id videos_note
     (renderVideos ex_host [ex_video ''PT5M''] (ex_page\<lparr>videos_note := None\<rparr>)) = Inr None \<and>
   renderVideos ex_host [ex_video ''P0D''] ex_page = Inl TypeError"
proof -
  have "\<forall>v \<in> set [ex_video ''PT5M'']. sublist (lit ''PT'') (video_duration v)"
    using ex_video_PT by simp
  from video_cards_returns [OF this, of ex_host] obtain htmls
    where "video_cards ex_host [ex_video ''PT5M''] = Inr htmls" by blast
  from renderVideos_Inr [OF _ this, of "ex_page\<lparr>videos_note := None\<rparr>"]
  have 1: "map_sum id videos_note
     (renderVideos ex_host [ex_video ''PT5M''] (ex_page\<lparr>videos_note := None\<rparr>)) = Inr None"
    by (simp add: ex_page_def)
  have 2: "renderVideos ex_host [ex_video ''P0D''] ex_page = Inl TypeError"
    using createVideoCard_throws [OF ex_video_PT(4), of ex_host]
    by (simp add: renderVideos_def)
  from 1 2 show ?thesis by (rule conjI)
qed

text \<open>
  C10.  On a page that has the \<open>.videos-grid\<close> element, \<open>renderVideos\<close> on the empty
  list returns normally with the message of the empty playlist in the grid, which is not
  the empty content that no cards would give, and with the label as it was.  On every
  page, a call of \<open>renderVideos\<close> that returns with a changed label was given a non-empty
  list.
\<close>

theorem renderVideos_empty:
  "(videos_grid p \<noteq> None \<longrightarrow>
      renderVideos h [] p = Inr (p\<lparr>videos_grid := Some no_videos_html\<rparr>)) \<and>
   videos_note (p\<lparr>videos_grid := Some no_videos_html\<rparr>) = videos_note p \<and>
   no_videos_html \<noteq> concat [] \<and>
   (renderVideos h vs p = Inr q \<and> videos_note q \<noteq> videos_note p \<longrightarrow> vs \<noteq> [])"
proof -
  have "videos_note q = videos_note p" if "renderVideos h [] p = Inr q"
    using that by (auto simp: renderVideos_def set_innerHTML_def split: option.splits)
  then show ?thesis
    by (auto simp: renderVideos_def set_innerHTML_Some no_videos_html_def lit_def
        simp del: not_None_eq)
qed

text \<open>The empty list on the page with both elements, whose label is empty before.\<close>

theorem renderVideos_empty_witness:
  "renderVideos ex_host [] ex_page = Inr (ex_page\<lparr>videos_grid := Some no_videos_html\<rparr>) \<and>
   videos_note (ex_page\<lparr>videos_grid := Some no_videos_html\<rparr>) = Some []"
  using renderVideos_empty [of ex_page ex_host "[]" ex_page]
  by (simp add: ex_page_def)

section \<open>A duration of a day or more\<close>

text \<open>
  C9.  An ISO 8601 duration of a day or more, such as \<open>P1DT2H3M4S\<close>, has no \<open>PT\<close>.
  A detail record with such a duration is not replaced by the default \<open>PT0S\<close>, which
  stands in for a missing duration only: the join keeps it, \<open>createVideoCard\<close> hands it
  to \<open>formatDuration\<close>, which throws, and \<open>renderVideos\<close> throws with it.
\<close>

theorem createVideoCard_day_long:
  "video_duration (with_details \<lparr> resources = [ex_resource ''a'' ''P1DT2H3M4S''] \<rparr> (ex_item ''a'')) =
     lit ''P1DT2H3M4S'' \<and>
   formatDuration (lit ''P1DT2H3M4S'') = Inl TypeError \<and>
   createVideoCard ex_host
     (with_details \<lparr> resources = [ex_resource ''a'' ''P1DT2H3M4S''] \<rparr> (ex_item ''a'')) =
     Inl TypeError \<and>
   renderVideos ex_host
     (videosWithDetails \<lparr> resources = [ex_resource ''a'' ''P1DT2H3M4S''] \<rparr> [ex_item ''a''])
     ex_page = Inl TypeError"
proof -
  let ?v = "with_details \<lparr> resources = [ex_resource ''a'' ''P1DT2H3M4S''] \<rparr> (ex_item ''a'')"
  have d: "video_duration ?v = lit ''P1DT2H3M4S''"
    by (simp add: with_details_def ex_resource_def ex_item_def or_default_def lit_def)
  have f: "formatDuration (lit ''P1DT2H3M4S'') = Inl TypeError"
    by (simp add: formatDuration_def lit_def)
  from d f have c: "createVideoCard ex_host ?v = Inl TypeError"
    by (simp add: createVideoCard_def)
  then have "renderVideos ex_host
     (videosWithDetails \<lparr> resources = [ex_resource ''a'' ''P1DT2H3M4S''] \<rparr> [ex_item ''a''])
     ex_page = Inl TypeError"
    by (simp add: renderVideos_def videosWithDetails_def)
  with d f c show ?thesis by blast
qed

section \<open>The whole run on the example playlist\<close>

lemma fetchPlaylistVideos_example:
  "fetchPlaylistVideos ex_globals ex_net (ex_page\<lparr>videos_grid := Some loading_html\<rparr>) =
     Some (Inr (videosWithDetails ex_videos [ex_item ''a'', ex_item ''b'', ex_item ''c'']),
           ex_page\<lparr>videos_grid := Some loading_html,
                   requests := [playlistUrl (lit ''PL'') (lit ''K'') [],
                                playlistUrl (lit ''PL'') (lit ''K'') (lit ''T2''),
                                videosUrl (lit ''a,b,c'') (lit ''K'')]\<rparr>)"
proof -
  have g: "CONFIG ex_globals = Some \<lparr> YOUTUBE_API_KEY = Some (lit ''K'') \<rparr>"
    "lit ''PL'' = template_text (YOUTUBE_PLAYLIST_ID ex_globals)"
    "lit ''K'' = template_text (YOUTUBE_API_KEY \<lparr> YOUTUBE_API_KEY = Some (lit ''K'') \<rparr>)"
    by (simp_all add: ex_globals_def template_text_def)
  have u: "videosUrl (lit ''a,b,c'') (lit ''K'') =
      videosUrl (join (lit '','') (map (\<lambda>item. videoId (contentDetails item))
        (concat (map items [ex_page1, ex_page2])))) (lit ''K'')"
    by (simp add: ex_page1_def ex_page2_def ex_item_def lit_def)
  have v: "ok (videos ex_net ([] @ page_urls (lit ''PL'') (lit ''K'') [] [ex_page1, ex_page2])
                 (videosUrl (lit ''a,b,c'') (lit ''K'')))"
    by (simp add: ex_net_def ex_success_def)
  from fetch_body_videos_ok [OF g ex_serves u v]
  show ?thesis
    by (simp add: fetchPlaylistVideos_def ex_page_def ex_net_def ex_success_def ex_page1_def
        ex_page2_def cursor_def orEmpty_def)
qed

text \<open>
  With a key and a playlist id, on the provider that serves the example playlist, the call
  makes its three requests and ends with three cards in the grid and the count of three
  videos in the label; the video without a detail record is among them.
\<close>

lemma initializePlaylist_example:
  "\<exists>a b c.
     map (createVideoCard ex_host)
       (videosWithDetails ex_videos [ex_item ''a'', ex_item ''b'', ex_item ''c'']) =
       [Inr a, Inr b, Inr c] \<and>
     initializePlaylist ex_host ex_globals ex_net ex_page =
       Some (None,
         \<lparr> videos_grid = Some (a @ b @ c),
           videos_note = Some (lit ''3 v'' @ [0xED] @ lit ''deos en esta lista de reproducci'' @
                               [0xF3] @ lit ''n.''),
           requests = [playlistUrl (lit ''PL'') (lit ''K'') [],
                       playlistUrl (lit ''PL'') (lit ''K'') (lit ''T2''),
                       videosUrl (lit ''a,b,c'') (lit ''K'')],
           console = [] \<rparr>)"
proof -
  let ?vs = "videosWithDetails ex_videos [ex_item ''a'', ex_item ''b'', ex_item ''c'']"
  let ?p2 = "ex_page\<lparr>videos_grid := Some loading_html,
                   requests := [playlistUrl (lit ''PL'') (lit ''K'') [],
                                playlistUrl (lit ''PL'') (lit ''K'') (lit ''T2''),
                                videosUrl (lit ''a,b,c'') (lit ''K'')]\<rparr>"
  have d: "map video_duration ?vs = [lit ''PT5M'', lit ''PT0S'', lit ''PT2H15M33S'']"
    by (simp add: videosWithDetails_def with_details_def ex_videos_def ex_resource_def
        ex_item_def or_default_def lit_def)
  have "\<forall>d \<in> set (map video_duration ?vs). sublist (lit ''PT'') d"
    unfolding d by (simp add: lit_def sublist_Cons_right)
  then have "\<forall>v \<in> set ?vs. sublist (lit ''PT'') (video_duration v)" by simp
  from video_cards_returns [OF this, of ex_host] obtain htmls
    where h: "video_cards ex_host ?vs = Inr htmls"
      and m: "map (createVideoCard ex_host) ?vs = map Inr htmls" by blast
  have l: "length ?vs = 3" by (simp add: videosWithDetails_def)
  with m have "length htmls = 3" by (metis length_map)
  then obtain a b c where abc: "htmls = [a, b, c]"
    by (auto simp: length_Suc_conv numeral_3_eq_3)
  have ne: "?vs \<noteq> []" using l by auto
  have r: "renderVideos ex_host ?vs ?p2 =
       Inr (?p2\<lparr>videos_grid := Some (concat htmls),
              videos_note := map_option (\<lambda>old. note_text (length ?vs)) (videos_note ?p2)\<rparr>)"
    by (rule renderVideos_Inr [OF ne h]) simp
  have keys: "CONFIG ex_globals = Some \<lparr> YOUTUBE_API_KEY = Some (lit ''K'') \<rparr>"
    "YOUTUBE_PLAYLIST_ID ex_globals = Some (lit ''PL'')"
    by (simp_all add: ex_globals_def)
  have ok: "orEmpty (Some (lit ''K'')) \<noteq> []" "lit ''K'' \<noteq> lit ''TU_API_KEY_AQUI''"
    "orEmpty (Some (lit ''PL'')) \<noteq> []"
    by (simp_all add: orEmpty_def lit_def)
  have s: "showLoading ex_page = Inr (ex_page\<lparr>videos_grid := Some loading_html\<rparr>)"
    by (simp add: showLoading_def set_innerHTML_def ex_page_def)
  have "initializePlaylist ex_host ex_globals ex_net ex_page =
       Some (None, ?p2\<lparr>videos_grid := Some (concat htmls),
              videos_note := map_option (\<lambda>old. note_text (length ?vs)) (videos_note ?p2)\<rparr>)"
    by (simp add: initializePlaylist_def keys ok s fetchPlaylistVideos_example r del: One_nat_def)
  then have "initializePlaylist ex_host ex_globals ex_net ex_page =
       Some (None,
         \<lparr> videos_grid = Some (a @ b @ c),
           videos_note = Some (lit ''3 v'' @ [0xED] @ lit ''deos en esta lista de reproducci'' @
                               [0xF3] @ lit ''n.''),
           requests = [playlistUrl (lit ''PL'') (lit ''K'') [],
                       playlistUrl (lit ''PL'') (lit ''K'') (lit ''T2''),
                       videosUrl (lit ''a,b,c'') (lit ''K'')],
           console = [] \<rparr>)"
    by (simp add: abc l ex_page_def note_text_def decimal.simps lit_def)
  with m abc show ?thesis by auto
qed

end
